theory Spec2Isabelle
  imports Main "HOL-Library.AList" "HOL-Library.Word"
begin

section \<open>Data model\<close>

text \<open>
  A Python string is a sequence of Unicode code points, so \<open>str\<close> is a list of code points
  (an Isabelle \<open>char\<close> is a byte and cannot hold an emoji). The fixed ASCII literals of the
  program are written as Isabelle strings and converted with \<open>py_str\<close>.
\<close>

type_synonym str = "nat list"

definition py_str :: "string \<Rightarrow> str" where
  "py_str s = map of_char s"

section \<open>The emoji filter\<close>

text \<open>
  The character class of \<open>emoji_pattern\<close> in \<open>remove_emoji\<close>: six ranges of code points,
  in the order of the source.
\<close>

definition in_emoji_class :: "nat \<Rightarrow> bool" where
  "in_emoji_class c \<longleftrightarrow>
     (0x1F600 \<le> c \<and> c \<le> 0x1F64F) \<or>
     (0x1F300 \<le> c \<and> c \<le> 0x1F5FF) \<or>
     (0x1F680 \<le> c \<and> c \<le> 0x1F6FF) \<or>
     (0x1F1E0 \<le> c \<and> c \<le> 0x1F1FF) \<or>
     (0x2702 \<le> c \<and> c \<le> 0x27B0) \<or>
     (0x24C2 \<le> c \<and> c \<le> 0x1F251)"

text \<open>
  \<open>emoji_pattern.sub(r'', text)\<close>: the pattern is the class followed by \<open>+\<close>, so scanning
  from the left, a character of the class starts a match that takes the longest run of
  class characters and is replaced by the empty string; any other character is kept.
\<close>

function remove_emoji :: "str \<Rightarrow> str" where
  "remove_emoji [] = []"
| "remove_emoji (c # cs) =
     (if in_emoji_class c then remove_emoji (dropWhile in_emoji_class cs)
      else c # remove_emoji cs)"
  by pat_completeness auto
termination
  by (relation "measure length") (auto simp: length_dropWhile_le less_Suc_eq_le)

section \<open>JSON values and the Python operations on them\<close>

text \<open>
  What \<open>json.load\<close> and the output parser return. A Python \<open>dict\<close> keeps its keys in
  insertion order, so an object is an association list. A \<open>float\<close> is either the finite
  value \<open>m * 2 ^ e\<close> or one of the three constants that Python's \<open>json\<close> module also
  reads (\<open>Infinity\<close>, \<open>-Infinity\<close>, \<open>NaN\<close>).
\<close>

datatype pyfloat = Finite int int | PosInf | NegInf | NaN

datatype json =
    JNull
  | JBool bool
  | JInt int
  | JFloat pyfloat
  | JString str
  | JArray "json list"
  | JObject "(str \<times> json) list"

text \<open>
  The exceptions of a run. \<open>OtherError\<close> names an exception raised inside a collaborator
  (the LLM client, the operating system, the JSON encoder) that the program neither raises
  nor catches itself.
\<close>

datatype error =
    KeyError str
  | TypeError
  | AttributeError
  | OutputParserException string
  | UnicodeError
  | UnicodeDecodeError
  | JSONDecodeError
  | FileNotFoundError
  | OtherError string

text \<open>\<open>obj[key]\<close> with a string key: only a dict accepts it, and a missing key raises.\<close>

fun py_getitem :: "json \<Rightarrow> str \<Rightarrow> error + json" where
  "py_getitem (JObject d) k = (case map_of d k of None \<Rightarrow> Inl (KeyError k) | Some v \<Rightarrow> Inr v)"
| "py_getitem _ k = Inl TypeError"

text \<open>
  \<open>for x in obj\<close>: a list yields its elements, a dict its keys, a string its characters;
  \<open>None\<close>, booleans and numbers are not iterable.
\<close>

fun py_iter :: "json \<Rightarrow> error + json list" where
  "py_iter (JArray xs) = Inr xs"
| "py_iter (JObject d) = Inr (map (\<lambda>kv. JString (fst kv)) d)"
| "py_iter (JString s) = Inr (map (\<lambda>c. JString [c]) s)"
| "py_iter _ = Inl TypeError"

text \<open>
  Membership in a Python \<open>set\<close> needs a hashable element (lists and dicts are not) and
  compares with \<open>==\<close>: booleans, ints and floats compare by numeric value
  (\<open>True == 1 == 1.0\<close>); \<open>NaN\<close> is one object of the \<open>json\<close> module, found again by
  identity.
\<close>

fun py_hashable :: "json \<Rightarrow> bool" where
  "py_hashable (JArray xs) = False"
| "py_hashable (JObject d) = False"
| "py_hashable _ = True"

fun float_eq :: "pyfloat \<Rightarrow> pyfloat \<Rightarrow> bool" where
  "float_eq (Finite m e) (Finite n f) =
     (m * 2 ^ nat (e - min e f) = n * 2 ^ nat (f - min e f))"
| "float_eq PosInf PosInf = True"
| "float_eq NegInf NegInf = True"
| "float_eq NaN NaN = True"
| "float_eq _ _ = False"

fun py_number :: "json \<Rightarrow> pyfloat option" where
  "py_number (JBool b) = Some (Finite (if b then 1 else 0) 0)"
| "py_number (JInt i) = Some (Finite i 0)"
| "py_number (JFloat x) = Some x"
| "py_number _ = None"

definition py_eq :: "json \<Rightarrow> json \<Rightarrow> bool" where
  "py_eq a b =
     (case (py_number a, py_number b) of
        (Some x, Some y) \<Rightarrow> float_eq x y
      | (None, None) \<Rightarrow> a = b
      | _ \<Rightarrow> False)"

text \<open>
  A set under construction is the list of its elements in insertion order. \<open>s.add(x)\<close>
  keeps the element already there when an equal one arrives.
\<close>

definition set_add :: "json list \<Rightarrow> json \<Rightarrow> error + json list" where
  "set_add acc x =
     (if \<not> py_hashable x then Inl TypeError
      else if list_ex (\<lambda>y. py_eq y x) acc then Inr acc
      else Inr (acc @ [x]))"

fun set_update :: "json list \<Rightarrow> json list \<Rightarrow> error + json list" where
  "set_update acc [] = Inr acc"
| "set_update acc (x # xs) =
     (case set_add acc x of Inl e \<Rightarrow> Inl e | Inr acc' \<Rightarrow> set_update acc' xs)"

text \<open>What holds of a set under construction: no element occurs twice, under \<open>==\<close> either.\<close>

definition py_distinct :: "json list \<Rightarrow> bool" where
  "py_distinct xs \<longleftrightarrow> distinct xs \<and> (\<forall>x\<in>set xs. \<forall>y\<in>set xs. py_eq x y \<longrightarrow> x = y)"

text \<open>\<open>sep.join(xs)\<close>: every item must be a string.\<close>

fun py_join :: "str \<Rightarrow> json list \<Rightarrow> error + str" where
  "py_join sep [] = Inr []"
| "py_join sep [JString s] = Inr s"
| "py_join sep (JString s # x # xs) =
     (case py_join sep (x # xs) of Inl e \<Rightarrow> Inl e | Inr r \<Rightarrow> Inr (s @ sep @ r))"
| "py_join sep (_ # xs) = Inl TypeError"

text \<open>
  \<open>d.get(key, default)\<close>: only a dict has the method; its keys are strings, so another
  hashable key is never found; an unhashable key raises.
\<close>

fun py_get :: "json \<Rightarrow> json \<Rightarrow> json \<Rightarrow> error + json" where
  "py_get (JObject d) (JString k) dflt =
     Inr (case map_of d k of None \<Rightarrow> dflt | Some v \<Rightarrow> v)"
| "py_get (JObject d) key dflt = (if py_hashable key then Inr dflt else Inl TypeError)"
| "py_get _ key dflt = Inl AttributeError"

text \<open>
  \<open>{**post, **metadata}\<close>: the keys of \<open>post\<close> in their order, each with the value of
  \<open>metadata\<close> where it has the key, then the remaining keys of \<open>metadata\<close> in their order.
\<close>

definition dict_merge :: "(str \<times> json) list \<Rightarrow> (str \<times> json) list \<Rightarrow> (str \<times> json) list" where
  "dict_merge post metadata = fold (\<lambda>kv. AList.update (fst kv) (snd kv)) metadata post"

section \<open>The collaborators\<close>

text \<open>
  Decoding a file. A codec cuts the bytes into pieces: a decoded character, or a byte
  sequence that is malformed in the encoding. The program opens its input with
  \<open>errors='ignore'\<close>: where the default handler would raise \<open>UnicodeDecodeError\<close> at
  the first malformed piece, this one drops the piece and goes on. A codec can also refuse
  a whole stream, whatever the handler: Python's UTF-16 reader raises \<open>UnicodeError\<close> on a
  stream that has no byte order mark.
\<close>

type_synonym bytes = "8 word list"

datatype encoding = UTF8 | UTF16 | Latin1

fun encoding_name :: "encoding \<Rightarrow> string" where
  "encoding_name UTF8 = ''utf-8''"
| "encoding_name UTF16 = ''utf-16''"
| "encoding_name Latin1 = ''latin1''"

datatype segment = Decoded nat | Malformed bytes

fun is_malformed :: "segment \<Rightarrow> bool" where
  "is_malformed (Malformed bs) = True"
| "is_malformed (Decoded c) = False"

fun decode_ignore :: "segment list \<Rightarrow> str" where
  "decode_ignore [] = []"
| "decode_ignore (Decoded c # segs) = c # decode_ignore segs"
| "decode_ignore (Malformed bs # segs) = decode_ignore segs"

text \<open>
  What the program calls and does not define. The LLM client answers a prompt with the
  content of its response or raises, and may change its own state \<open>'s\<close> at each call.
  \<open>parser_parse\<close> is \<open>JsonOutputParser().parse\<close>, with \<open>None\<close> for its
  \<open>OutputParserException\<close>. \<open>json_loads\<close> reads the decoded text of the input file.
  \<open>codec\<close> cuts a file into segments, or refuses it with \<open>None\<close>. \<open>set_iter\<close> is the order
  in which Python iterates over a set whose elements were inserted in the given order (it
  follows the hash values).
  \<open>dump_error\<close> is the exception, if any, that stops \<open>json.dump\<close> (a string with a lone
  surrogate cannot be written as UTF-8).
\<close>

record 's env =
  llm_invoke :: "'s \<Rightarrow> str \<Rightarrow> (error + str) \<times> 's"
  parser_parse :: "str \<Rightarrow> json option"
  json_loads :: "str \<Rightarrow> error + json"
  codec :: "encoding \<Rightarrow> bytes \<Rightarrow> segment list option"
  set_iter :: "json list \<Rightarrow> json list"
  dump_error :: "json \<Rightarrow> error option"

text \<open>
  \<open>file.read()\<close> on a file opened with the given encoding and \<open>errors='ignore'\<close>. A file
  opened in text mode also reads every line ending (carriage return with line feed, or
  carriage return alone) as a line feed.
\<close>

fun universal_newlines :: "str \<Rightarrow> str" where
  "universal_newlines [] = []"
| "universal_newlines [c] = [if c = 13 then 10 else c]"
| "universal_newlines (c # d # t) =
     (if c = 13 \<and> d = 10 then 10 # universal_newlines t
      else if c = 13 then 10 # universal_newlines (d # t)
      else c # universal_newlines (d # t))"

definition read_text :: "'s env \<Rightarrow> encoding \<Rightarrow> bytes \<Rightarrow> error + str" where
  "read_text env enc bs =
     (case codec env enc bs of
        None \<Rightarrow> Inl UnicodeError
      | Some segs \<Rightarrow> Inr (universal_newlines (decode_ignore segs)))"

text \<open>
  The world around a run: the files that can be read, the paths that cannot be opened for
  writing (with the exception \<open>open\<close> raises), and the state of the LLM client.
\<close>

type_synonym path = string

record 's world =
  files :: "path \<Rightarrow> bytes option"
  open_w_error :: "path \<Rightarrow> error option"
  llm :: 's

section \<open>Metadata extraction\<close>

text \<open>The prompt of \<open>extract_metadata\<close>: its template with \<open>{post}\<close> filled in.\<close>

definition extract_prompt :: "str \<Rightarrow> str" where
  \<open>extract_prompt post =
     py_str ''\<newline>    You are given a LinkedIn post. You need to extract number of lines, language of the post and tags.\<newline>    1. Return a valid JSON. No preamble. \<newline>    2. JSON object should have exactly three keys: line_count, language and tags. \<newline>    3. tags is an array of text tags. Extract maximum two tags.\<newline>    4. Language should be English or Hinglish (Hinglish means hindi + english)\<newline>\<newline>    Here is the actual post on which you need to perform this task:  \<newline>    ''
     @ post @ py_str ''\<newline>    ''\<close>

definition extract_metadata :: "'s env \<Rightarrow> 's \<Rightarrow> str \<Rightarrow> (error + json) \<times> 's" where
  "extract_metadata env s post =
     (case llm_invoke env s (extract_prompt post) of
        (Inl e, s') \<Rightarrow> (Inl e, s')
      | (Inr content, s') \<Rightarrow>
          (case parser_parse env content of
             None \<Rightarrow> (Inl (OutputParserException ''Context is too big, unable to process''), s')
           | Some res \<Rightarrow> (Inr res, s')))"

section \<open>Tag unification\<close>

text \<open>The first loop of \<open>get_unified_tags\<close>: \<open>unique_tags.update(post['tags'])\<close> for every post.\<close>

fun collect_tags :: "json list \<Rightarrow> json list \<Rightarrow> error + json list" where
  "collect_tags unique_tags [] = Inr unique_tags"
| "collect_tags unique_tags (post # posts) =
     (case py_getitem post (py_str ''tags'') of
        Inl e \<Rightarrow> Inl e
      | Inr tags \<Rightarrow>
          (case py_iter tags of
             Inl e \<Rightarrow> Inl e
           | Inr ts \<Rightarrow>
               (case set_update unique_tags ts of
                  Inl e \<Rightarrow> Inl e
                | Inr unique_tags' \<Rightarrow> collect_tags unique_tags' posts)))"

text \<open>
  The prompt of \<open>get_unified_tags\<close>: its template with \<open>{tags}\<close> filled in and the doubled
  braces of the template read as single ones.
\<close>

definition unify_prompt :: "str \<Rightarrow> str" where
  \<open>unify_prompt tags =
     py_str ''I will give you a list of tags. You need to unify tags with the following requirements:\<newline>    1. Tags are unified and merged to create a shorter list. \<newline>       Example 1: "Jobseekers", "Job Hunting" can be all merged into a single tag "Job Search". \<newline>       Example 2: "Motivation", "Inspiration", "Drive" can be mapped to "Motivation"\<newline>       Example 3: "Personal Growth", "Personal Development", "Self Improvement" can be mapped to "Self Improvement"\<newline>       Example 4: "Scam Alert", "Job Scam" etc. can be mapped to "Scams"\<newline>    2. Each tag should be follow title case convention. example: "Motivation", "Job Search"\<newline>    3. Output should be a JSON object, No preamble\<newline>    3. Output should have mapping of original tag and the unified tag. \<newline>       For example: {"Jobseekers": "Job Search",  "Job Hunting": "Job Search", "Motivation": "Motivation"}\<newline>\<newline>    Here is the list of tags: \<newline>    ''
     @ tags @ py_str ''\<newline>    ''\<close>

definition get_unified_tags :: "'s env \<Rightarrow> 's \<Rightarrow> json list \<Rightarrow> (error + json) \<times> 's" where
  "get_unified_tags env s posts_with_metadata =
     (case collect_tags [] posts_with_metadata of
        Inl e \<Rightarrow> (Inl e, s)
      | Inr unique_tags \<Rightarrow>
          (case py_join (py_str '','') (set_iter env unique_tags) of
             Inl e \<Rightarrow> (Inl e, s)
           | Inr unique_tags_list \<Rightarrow>
               (case llm_invoke env s (unify_prompt unique_tags_list) of
                  (Inl e, s') \<Rightarrow> (Inl e, s')
                | (Inr content, s') \<Rightarrow>
                    (case parser_parse env content of
                       None \<Rightarrow>
                         (Inl (OutputParserException ''Context is too big, unable to process''), s')
                     | Some res \<Rightarrow> (Inr res, s')))))"

section \<open>The batch run\<close>

text \<open>
  The loading loop of \<open>process_posts\<close>. Each encoding is tried on the file, opened with
  \<open>errors='ignore'\<close> and read by \<open>json.load\<close>: a \<open>UnicodeDecodeError\<close> prints a line and goes on to the next
  encoding, a \<open>JSONDecodeError\<close> prints a line and returns, any other exception leaves the
  function, and the \<open>else\<close> branch of the loop, taken when the list is used up, prints a line
  and returns. The result is the printed lines and how the loop ended.
\<close>

datatype load_result = Posts json | Return | Raise error

definition encodings :: "encoding list" where
  "encodings = [UTF8, UTF16, Latin1]"

fun try_encodings :: "'s env \<Rightarrow> bytes option \<Rightarrow> encoding list \<Rightarrow> string list \<times> load_result" where
  "try_encodings env file [] =
     ([''Error: Unable to read the file with available encodings.''], Return)"
| "try_encodings env file (encoding # rest) =
     (case file of
        None \<Rightarrow> ([], Raise FileNotFoundError)
      | Some bs \<Rightarrow>
          (case read_text env encoding bs of
             Inl e \<Rightarrow>
               (if e = UnicodeDecodeError then
                  (case try_encodings env file rest of
                     (out, r) \<Rightarrow>
                       ((''Error: Cannot decode file with '' @ encoding_name encoding @
                         ''. Trying next encoding.'') # out, r))
                else ([], Raise e))
           | Inr t \<Rightarrow>
               (case json_loads env t of
                  Inl e \<Rightarrow>
                    (if e = JSONDecodeError then
                       ([''Error: The file could not be decoded as JSON.''], Return)
                     else ([], Raise e))
                | Inr posts \<Rightarrow> ([], Posts posts))))"

text \<open>
  The body of the first loop over the posts: the text is cleaned and stored back, the
  metadata are extracted from the cleaned text, and the two dicts are merged.
\<close>

definition enrich_post :: "'s env \<Rightarrow> 's \<Rightarrow> json \<Rightarrow> (error + json) \<times> 's" where
  "enrich_post env s post =
     (case py_getitem post (py_str ''text'') of
        Inl e \<Rightarrow> (Inl e, s)
      | Inr t \<Rightarrow>
          (case (t, post) of
             (JString txt, JObject d) \<Rightarrow>
               (let cleaned = remove_emoji txt;
                    post' = AList.update (py_str ''text'') (JString cleaned) d
                in case extract_metadata env s cleaned of
                     (Inl e, s') \<Rightarrow> (Inl e, s')
                   | (Inr metadata, s') \<Rightarrow>
                       (case metadata of
                          JObject m \<Rightarrow> (Inr (JObject (dict_merge post' m)), s')
                        | _ \<Rightarrow> (Inl TypeError, s')))
           | _ \<Rightarrow> (Inl TypeError, s)))"

fun enrich_posts :: "'s env \<Rightarrow> 's \<Rightarrow> json list \<Rightarrow> (error + json list) \<times> 's" where
  "enrich_posts env s [] = (Inr [], s)"
| "enrich_posts env s (post # posts) =
     (case enrich_post env s post of
        (Inl e, s') \<Rightarrow> (Inl e, s')
      | (Inr post_with_metadata, s') \<Rightarrow>
          (case enrich_posts env s' posts of
             (Inl e, s'') \<Rightarrow> (Inl e, s'')
           | (Inr enriched, s'') \<Rightarrow> (Inr (post_with_metadata # enriched), s'')))"

text \<open>
  The set comprehension of the second loop: each tag is looked up with
  \<open>unified_tags.get(tag, tag)\<close> and the value is added to the new set.
\<close>

fun new_tags_of :: "json \<Rightarrow> json list \<Rightarrow> json list \<Rightarrow> error + json list" where
  "new_tags_of unified_tags new_tags [] = Inr new_tags"
| "new_tags_of unified_tags new_tags (tag # tags) =
     (case py_get unified_tags tag tag of
        Inl e \<Rightarrow> Inl e
      | Inr v \<Rightarrow>
          (case set_add new_tags v of
             Inl e \<Rightarrow> Inl e
           | Inr new_tags' \<Rightarrow> new_tags_of unified_tags new_tags' tags))"

definition rewrite_post :: "'s env \<Rightarrow> json \<Rightarrow> json \<Rightarrow> error + json" where
  "rewrite_post env unified_tags post =
     (case py_getitem post (py_str ''tags'') of
        Inl e \<Rightarrow> Inl e
      | Inr current_tags \<Rightarrow>
          (case py_iter current_tags of
             Inl e \<Rightarrow> Inl e
           | Inr tags \<Rightarrow>
               (case new_tags_of unified_tags [] tags of
                  Inl e \<Rightarrow> Inl e
                | Inr new_tags \<Rightarrow>
                    (case post of
                       JObject d \<Rightarrow>
                         Inr (JObject
                           (AList.update (py_str ''tags'') (JArray (set_iter env new_tags)) d))
                     | _ \<Rightarrow> Inl TypeError))))"

fun rewrite_posts :: "'s env \<Rightarrow> json \<Rightarrow> json list \<Rightarrow> error + json list" where
  "rewrite_posts env unified_tags [] = Inr []"
| "rewrite_posts env unified_tags (post # posts) =
     (case rewrite_post env unified_tags post of
        Inl e \<Rightarrow> Inl e
      | Inr post' \<Rightarrow>
          (case rewrite_posts env unified_tags posts of
             Inl e \<Rightarrow> Inl e
           | Inr posts' \<Rightarrow> Inr (post' # posts')))"

text \<open>
  What a run leaves behind: whether it returned or raised, the lines it printed, the state
  of the LLM client, and the output file: \<open>written\<close> is \<open>None\<close> when the file was never
  opened, and otherwise the path and the value handed to \<open>json.dump\<close> (when \<open>json.dump\<close>
  raises, the file holds the part of the serialisation written so far).
\<close>

datatype outcome = Returned | Raised error

record 's result =
  outcome :: outcome
  stdout :: "string list"
  llm_after :: 's
  written :: "(path \<times> json) option"

definition stopped :: "outcome \<Rightarrow> string list \<Rightarrow> 's \<Rightarrow> 's result" where
  "stopped oc out s = \<lparr>outcome = oc, stdout = out, llm_after = s, written = None\<rparr>"

definition process_posts :: "'s env \<Rightarrow> 's world \<Rightarrow> path \<Rightarrow> path \<Rightarrow> 's result" where
  "process_posts env w raw_file_path processed_file_path =
     (case try_encodings env (files w raw_file_path) encodings of
        (out, Return) \<Rightarrow> stopped Returned out (llm w)
      | (out, Raise e) \<Rightarrow> stopped (Raised e) out (llm w)
      | (out, Posts posts) \<Rightarrow>
          (case py_iter posts of
             Inl e \<Rightarrow> stopped (Raised e) out (llm w)
           | Inr ps \<Rightarrow>
               (case enrich_posts env (llm w) ps of
                  (Inl e, s) \<Rightarrow> stopped (Raised e) out s
                | (Inr enriched_posts, s) \<Rightarrow>
                    (case get_unified_tags env s enriched_posts of
                       (Inl e, s') \<Rightarrow> stopped (Raised e) out s'
                     | (Inr unified_tags, s') \<Rightarrow>
                         (case rewrite_posts env unified_tags enriched_posts of
                            Inl e \<Rightarrow> stopped (Raised e) out s'
                          | Inr final_posts \<Rightarrow>
                              (case open_w_error w processed_file_path of
                                 Some e \<Rightarrow> stopped (Raised e) out s'
                               | None \<Rightarrow>
                                   \<lparr>outcome =
                                      (case dump_error env (JArray final_posts) of
                                         None \<Rightarrow> Returned
                                       | Some e \<Rightarrow> Raised e),
                                    stdout = out,
                                    llm_after = s',
                                    written =
                                      Some (processed_file_path, JArray final_posts)\<rparr>))))))"

section \<open>A concrete environment for the examples\<close>

text \<open>
  Python's UTF-8 decoder: an ASCII byte is a character; a lead byte with the continuation
  bytes it needs is a character; a byte that cannot start a sequence, or a sequence cut
  short by a byte that cannot continue it or by the end of the data, is malformed up to
  the offending byte. Overlong forms, surrogates and code points above \<open>0x10FFFF\<close> are
  refused at their second byte.
\<close>

definition is_cont :: "8 word \<Rightarrow> bool" where
  "is_cont b \<longleftrightarrow> 0x80 \<le> b \<and> b < 0xC0"

definition second_ok :: "8 word \<Rightarrow> 8 word \<Rightarrow> bool" where
  "second_ok b b1 \<longleftrightarrow>
     is_cont b1 \<and> \<not> (b = 0xE0 \<and> b1 < 0xA0) \<and> \<not> (b = 0xED \<and> 0xA0 \<le> b1) \<and>
     \<not> (b = 0xF0 \<and> b1 < 0x90) \<and> \<not> (b = 0xF4 \<and> 0x90 \<le> b1)"

fun utf8_segments :: "bytes \<Rightarrow> segment list" where
  "utf8_segments [] = []"
| "utf8_segments (b # bs) =
     (if b < 0x80 then Decoded (unat b) # utf8_segments bs
      else if b < 0xC2 \<or> 0xF4 < b then Malformed [b] # utf8_segments bs
      else
        (case bs of
           [] \<Rightarrow> [Malformed [b]]
         | b1 # r1 \<Rightarrow>
             if \<not> second_ok b b1 then Malformed [b] # utf8_segments bs
             else if b < 0xE0 then
               Decoded ((unat b - 0xC0) * 0x40 + (unat b1 - 0x80)) # utf8_segments r1
             else
               (case r1 of
                  [] \<Rightarrow> [Malformed [b, b1]]
                | b2 # r2 \<Rightarrow>
                    if \<not> is_cont b2 then Malformed [b, b1] # utf8_segments r1
                    else if b < 0xF0 then
                      Decoded ((unat b - 0xE0) * 0x1000 + (unat b1 - 0x80) * 0x40 +
                               (unat b2 - 0x80)) # utf8_segments r2
                    else
                      (case r2 of
                         [] \<Rightarrow> [Malformed [b, b1, b2]]
                       | b3 # r3 \<Rightarrow>
                           if \<not> is_cont b3 then Malformed [b, b1, b2] # utf8_segments r2
                           else
                             Decoded ((unat b - 0xF0) * 0x40000 + (unat b1 - 0x80) * 0x1000 +
                                      (unat b2 - 0x80) * 0x40 + (unat b3 - 0x80))
                             # utf8_segments r3))))"

text \<open>
  Python's UTF-16 decoder after the byte order mark: two bytes make a code unit, a high
  surrogate followed by a low one makes one character, a surrogate on its own and a
  trailing odd byte are malformed.
\<close>

definition code_unit :: "bool \<Rightarrow> 8 word \<Rightarrow> 8 word \<Rightarrow> nat" where
  "code_unit big b0 b1 = (if big then 0x100 * unat b0 + unat b1 else unat b0 + 0x100 * unat b1)"

fun utf16_segments :: "bool \<Rightarrow> bytes \<Rightarrow> segment list" where
  "utf16_segments big [] = []"
| "utf16_segments big [b] = [Malformed [b]]"
| "utf16_segments big (b0 # b1 # r) =
     (let u = code_unit big b0 b1 in
      if u < 0xD800 \<or> 0xDFFF < u then Decoded u # utf16_segments big r
      else if 0xDC00 \<le> u then Malformed [b0, b1] # utf16_segments big r
      else
        (case r of
           c0 # c1 # r' \<Rightarrow>
             (let v = code_unit big c0 c1 in
              if 0xDC00 \<le> v \<and> v \<le> 0xDFFF then
                Decoded (0x10000 + (u - 0xD800) * 0x400 + (v - 0xDC00)) # utf16_segments big r'
              else Malformed [b0, b1] # utf16_segments big r)
         | _ \<Rightarrow> [Malformed (b0 # b1 # r)]))"

text \<open>
  The three codecs of the program as a file opened by \<open>open\<close> uses them. UTF-16 takes its
  byte order from the mark and refuses a stream of two bytes or more without one; Latin-1
  reads every byte as the character of the same number.
\<close>

fun python_codec :: "encoding \<Rightarrow> bytes \<Rightarrow> segment list option" where
  "python_codec UTF8 bs = Some (utf8_segments bs)"
| "python_codec UTF16 [] = Some []"
| "python_codec UTF16 [b] = Some [Malformed [b]]"
| "python_codec UTF16 (b0 # b1 # r) =
     (if b0 = 0xFF \<and> b1 = 0xFE then Some (utf16_segments False r)
      else if b0 = 0xFE \<and> b1 = 0xFF then Some (utf16_segments True r)
      else None)"
| "python_codec Latin1 bs = Some (map (\<lambda>b. Decoded (unat b)) bs)"

text \<open>
  The JSON texts of the examples with the values they denote; every other text counts as
  unparseable. \<open>table_loads\<close> stands for \<open>json.load\<close> and \<open>table_parse\<close> for the output
  parser in the examples.
\<close>

definition grinning_face :: nat where
  "grinning_face = 0x1F600"

definition json_table :: "(str \<times> json) list" where
  \<open>json_table =
     [(py_str ''[]'', JArray []),
      (py_str ''{}'', JObject []),
      (py_str ''[{"text": "hi"}]'', JArray [JObject [(py_str ''text'', JString (py_str ''hi''))]]),
      (py_str ''[{"text": "Hi '' @ [grinning_face] @ py_str ''"}]'',
         JArray [JObject [(py_str ''text'', JString (py_str ''Hi '' @ [grinning_face]))]]),
      (py_str ''{"tags": []}'', JObject [(py_str ''tags'', JArray [])]),
      (py_str ''{"line_count": 1, "language": "English", "tags": ["Jobseekers"]}'',
         JObject [(py_str ''line_count'', JInt 1),
                  (py_str ''language'', JString (py_str ''English'')),
                  (py_str ''tags'', JArray [JString (py_str ''Jobseekers'')])]),
      (py_str ''{"Jobseekers": "Job Search"}'',
         JObject [(py_str ''Jobseekers'', JString (py_str ''Job Search''))]),
      (py_str ''[{"text": "A"}, {"text": "B"}]'',
         JArray [JObject [(py_str ''text'', JString (py_str ''A''))],
                 JObject [(py_str ''text'', JString (py_str ''B''))]]),
      (py_str ''{"line_count": 2, "language": "Hinglish", "tags": ["Job Hunting"]}'',
         JObject [(py_str ''line_count'', JInt 2),
                  (py_str ''language'', JString (py_str ''Hinglish'')),
                  (py_str ''tags'', JArray [JString (py_str ''Job Hunting'')])]),
      (py_str ''{"Jobseekers": "Job Search", "Job Hunting": "Job Search"}'',
         JObject [(py_str ''Jobseekers'', JString (py_str ''Job Search'')),
                  (py_str ''Job Hunting'', JString (py_str ''Job Search''))])]\<close>

definition table_parse :: "str \<Rightarrow> json option" where
  "table_parse t = map_of json_table t"

definition table_loads :: "str \<Rightarrow> error + json" where
  "table_loads t = (case map_of json_table t of None \<Rightarrow> Inl JSONDecodeError | Some v \<Rightarrow> Inr v)"

text \<open>
  An LLM client that answers from a script: its state is the list of the responses still
  to give, whatever the prompt.
\<close>

fun scripted_llm :: "str list \<Rightarrow> str \<Rightarrow> (error + str) \<times> str list" where
  "scripted_llm [] prompt = (Inl (OtherError ''no response''), [])"
| "scripted_llm (r # rs) prompt = (Inr r, rs)"

definition example_env :: "str list env" where
  "example_env =
     \<lparr>llm_invoke = scripted_llm, parser_parse = table_parse, json_loads = table_loads,
      codec = python_codec, set_iter = (\<lambda>xs. xs), dump_error = (\<lambda>v. None)\<rparr>"

definition ascii :: "string \<Rightarrow> bytes" where
  "ascii s = map of_char s"

definition one_file :: "path \<Rightarrow> bytes \<Rightarrow> str list \<Rightarrow> str list world" where
  "one_file p bs responses =
     \<lparr>files = (\<lambda>q. if q = p then Some bs else None), open_w_error = (\<lambda>q. None),
      llm = responses\<rparr>"

section \<open>Properties of the emoji filter\<close>

lemma filter_dropWhile_same: "filter (\<lambda>c. \<not> P c) (dropWhile P xs) = filter (\<lambda>c. \<not> P c) xs"
  by (induction xs) auto

lemma remove_emoji_filter: "remove_emoji t = filter (\<lambda>c. \<not> in_emoji_class c) t"
proof (induction t rule: remove_emoji.induct)
  case 1
  show ?case by simp
next
  case (2 c cs)
  then show ?case by (simp add: filter_dropWhile_same)
qed

lemma remove_emoji_great_day:
  "remove_emoji (py_str ''Great day! '' @ [0x1F600, 0x1F680]) = py_str ''Great day! ''"
  by (simp add: py_str_def in_emoji_class_def)

text \<open>
  On a string whose characters all lie outside the six ranges of the pattern, the emoji
  filter returns the string unchanged.
\<close>

lemma remove_emoji_plain_identity:
  "\<forall>c \<in> set S. \<not> in_emoji_class c \<Longrightarrow> remove_emoji S = S"
  by (simp add: remove_emoji_filter)

text \<open>
  C8 at a string of two Chinese characters, U+4E2D and U+6587. They are no emoticons,
  pictographs, transport symbols, flags, dingbats or enclosed characters, and they lie
  outside the first five ranges of the pattern; but the sixth range of the pattern runs
  from U+24C2 to U+1F251, across the ideographs (and across the fourth and fifth ranges),
  so the filter removes both characters instead of leaving the string unchanged.
\<close>

theorem remove_emoji_removes_ideographs:
  "remove_emoji [0x4E2D, 0x6587] = []
   \<and> remove_emoji (py_str ''Hi '' @ [0x4E2D, 0x6587]) = py_str ''Hi ''
   \<and> list_all (\<lambda>c. \<not> (0x1F600 \<le> c \<and> c \<le> 0x1F64F) \<and> \<not> (0x1F300 \<le> c \<and> c \<le> 0x1F5FF) \<and>
                    \<not> (0x1F680 \<le> c \<and> c \<le> 0x1F6FF) \<and> \<not> (0x1F1E0 \<le> c \<and> c \<le> 0x1F1FF) \<and>
                    \<not> (0x2702 \<le> c \<and> c \<le> 0x27B0)) [0x4E2D, 0x6587 :: nat]
   \<and> list_all (\<lambda>c. 0x24C2 \<le> c \<and> c \<le> 0x1F251) [0x4E2D, 0x6587, 0x2702, 0x27B0, 0x1F1E0, 0x1F1FF :: nat]"
  by (simp add: py_str_def in_emoji_class_def)

text \<open>
  C9: the emoji filter is idempotent: filtering an already filtered string changes nothing.
\<close>

theorem remove_emoji_idempotent: "remove_emoji (remove_emoji S) = remove_emoji S"
  by (simp add: remove_emoji_filter)

section \<open>Evaluation of the examples\<close>

lemmas example_defs = example_env_def one_file_def table_loads_def table_parse_def json_table_def
  ascii_def py_str_def grinning_face_def encodings_def read_text_def is_cont_def second_ok_def
  process_posts_def stopped_def enrich_post_def extract_metadata_def get_unified_tags_def
  rewrite_post_def dict_merge_def set_add_def py_eq_def in_emoji_class_def

section \<open>The loader\<close>

lemma decode_ignore_append: "decode_ignore (xs @ ys) = decode_ignore xs @ decode_ignore ys"
  by (induction xs rule: decode_ignore.induct) auto

text \<open>
  C10: the input file is opened with \<open>errors='ignore'\<close>, so reading it never raises
  \<open>UnicodeDecodeError\<close>, whatever the encoding; a malformed byte sequence is dropped from
  the decoded text; and the loading loop is decided by its first encoding: it returns the
  posts read under UTF-8, or stops on the JSON error or the exception met there, and never
  goes on to the next encoding or to the branch taken when every encoding has failed.
\<close>

theorem first_encoding_decides:
  "try_encodings env (Some bs) encodings =
     (case codec env UTF8 bs of
        None \<Rightarrow> ([], Raise UnicodeError)
      | Some segs \<Rightarrow>
          (case json_loads env (universal_newlines (decode_ignore segs)) of
             Inl e \<Rightarrow>
               if e = JSONDecodeError
               then ([''Error: The file could not be decoded as JSON.''], Return)
               else ([], Raise e)
           | Inr posts \<Rightarrow> ([], Posts posts)))
   \<and> read_text env enc bs \<noteq> Inl UnicodeDecodeError
   \<and> decode_ignore (xs @ Malformed m # ys) = decode_ignore (xs @ ys)"
  by (simp add: encodings_def read_text_def decode_ignore_append split: option.splits sum.splits)

section \<open>Merging the metadata into a post\<close>

lemma keys_update: "fst ` set (AList.update k v d) = insert k (fst ` set d)"
  by (induction d) auto

lemma keys_fold_update:
  "fst ` set (fold (\<lambda>kv. AList.update (fst kv) (snd kv)) m d) = fst ` set d \<union> fst ` set m"
  by (induction m arbitrary: d) (auto simp: keys_update)

text \<open>
  C4, as the claim states it, fails: a key of the metadata other than the three expected
  ones is not ignored, it becomes a key of the merged post.
\<close>

theorem merge_extra_key_counterexample:
  "py_str ''extra'' \<in> fst ` set (dict_merge
       [(py_str ''text'', JString (py_str ''hi''))]
       [(py_str ''line_count'', JInt 1), (py_str ''language'', JString (py_str ''English'')),
        (py_str ''tags'', JArray []), (py_str ''extra'', JNull)])
   \<and> py_str ''extra'' \<notin> fst ` set [(py_str ''text'', JString (py_str ''hi''))] \<union>
        {py_str ''line_count'', py_str ''language'', py_str ''tags''}"
  by (simp add: dict_merge_def keys_fold_update py_str_def)

lemma map_of_fold_update:
  "distinct (map fst m) \<Longrightarrow>
   map_of (fold (\<lambda>kv. AList.update (fst kv) (snd kv)) m d) k =
     (case map_of m k of None \<Rightarrow> map_of d k | Some v \<Rightarrow> Some v)"
proof (induction m arbitrary: d)
  case Nil
  then show ?case by simp
next
  case (Cons kv m)
  then have d: "distinct (map fst m)" and n: "map_of m (fst kv) = None"
    by (auto simp: map_of_eq_None_iff)
  show ?case
  proof (cases "k = fst kv")
    case True
    with Cons.IH [OF d] n show ?thesis by (simp add: update_conv')
  next
    case False
    then have "map_of (AList.update (fst kv) (snd kv) d) k = map_of d k"
      by (simp add: update_conv')
    with False Cons.IH [OF d, of "AList.update (fst kv) (snd kv) d"] show ?thesis
      by (simp split: option.splits)
  qed
qed

text \<open>
  C4, amended: the keys of the merged post are the keys of the post together with all the
  keys of the metadata mapping, whatever they are, and they are the keys of the post
  together with \<open>line_count\<close>, \<open>language\<close> and \<open>tags\<close> when the metadata has exactly these
  three keys; under each key of the metadata (a dict: its keys are distinct) the merged
  post holds the value of the metadata, also where the post had the key, and under every
  other key the value of the post.
\<close>

theorem merge_keeps_all_keys:
  "fst ` set (dict_merge post metadata) = fst ` set post \<union> fst ` set metadata
   \<and> (fst ` set metadata = {py_str ''line_count'', py_str ''language'', py_str ''tags''} \<longrightarrow>
        fst ` set (dict_merge post metadata) =
          fst ` set post \<union> {py_str ''line_count'', py_str ''language'', py_str ''tags''})
   \<and> (distinct (map fst metadata) \<longrightarrow>
        map_of (dict_merge post metadata) k =
          (case map_of metadata k of None \<Rightarrow> map_of post k | Some v \<Rightarrow> Some v))"
  by (simp add: dict_merge_def keys_fold_update map_of_fold_update)

theorem merge_keeps_all_keys_witness:
  "fst ` set [(py_str ''line_count'', JInt 1), (py_str ''language'', JString (py_str ''English'')),
              (py_str ''tags'', JArray [])] =
     {py_str ''line_count'', py_str ''language'', py_str ''tags''}
   \<and> fst ` set (dict_merge
        [(py_str ''text'', JString (py_str ''hi'')), (py_str ''tags'', JString (py_str ''old''))]
        [(py_str ''line_count'', JInt 1), (py_str ''language'', JString (py_str ''English'')),
         (py_str ''tags'', JArray [])]) =
       fst ` set [(py_str ''text'', JString (py_str ''hi'')),
                  (py_str ''tags'', JString (py_str ''old''))] \<union>
         {py_str ''line_count'', py_str ''language'', py_str ''tags''}
   \<and> distinct (map fst [(py_str ''line_count'', JInt 1),
         (py_str ''language'', JString (py_str ''English'')), (py_str ''tags'', JArray [])])
   \<and> map_of [(py_str ''text'', JString (py_str ''hi'')),
              (py_str ''tags'', JString (py_str ''old''))] (py_str ''tags'') =
       Some (JString (py_str ''old''))
   \<and> map_of (dict_merge
        [(py_str ''text'', JString (py_str ''hi'')), (py_str ''tags'', JString (py_str ''old''))]
        [(py_str ''line_count'', JInt 1), (py_str ''language'', JString (py_str ''English'')),
         (py_str ''tags'', JArray [])]) (py_str ''tags'') = Some (JArray [])
   \<and> map_of (dict_merge
        [(py_str ''text'', JString (py_str ''hi'')), (py_str ''tags'', JString (py_str ''old''))]
        [(py_str ''line_count'', JInt 1), (py_str ''language'', JString (py_str ''English'')),
         (py_str ''tags'', JArray [])]) (py_str ''text'') = Some (JString (py_str ''hi''))"
proof -
  let ?post = "[(py_str ''text'', JString (py_str ''hi'')),
                (py_str ''tags'', JString (py_str ''old''))]"
  let ?md = "[(py_str ''line_count'', JInt 1), (py_str ''language'', JString (py_str ''English'')),
              (py_str ''tags'', JArray [])]"
  have h1: "fst ` set ?md = {py_str ''line_count'', py_str ''language'', py_str ''tags''}"
    by simp
  have h2: "distinct (map fst ?md)"
    by (simp add: py_str_def)
  have h3: "map_of ?post (py_str ''tags'') = Some (JString (py_str ''old''))"
    by (simp add: py_str_def)
  note t = merge_keeps_all_keys [of ?post ?md]
  have c1: "fst ` set (dict_merge ?post ?md) =
      fst ` set ?post \<union> {py_str ''line_count'', py_str ''language'', py_str ''tags''}"
    using t [THEN conjunct2, THEN conjunct1, THEN mp, OF h1] .
  have "map_of (dict_merge ?post ?md) (py_str ''tags'') =
      (case map_of ?md (py_str ''tags'') of None \<Rightarrow> map_of ?post (py_str ''tags'')
       | Some v \<Rightarrow> Some v)"
    using t [THEN conjunct2, THEN conjunct2, THEN mp, OF h2] .
  then have c2: "map_of (dict_merge ?post ?md) (py_str ''tags'') = Some (JArray [])"
    by (simp add: py_str_def)
  have "map_of (dict_merge ?post ?md) (py_str ''text'') =
      (case map_of ?md (py_str ''text'') of None \<Rightarrow> map_of ?post (py_str ''text'')
       | Some v \<Rightarrow> Some v)"
    using t [THEN conjunct2, THEN conjunct2, THEN mp, OF h2] .
  then have c3: "map_of (dict_merge ?post ?md) (py_str ''text'') = Some (JString (py_str ''hi''))"
    by (simp add: py_str_def)
  from h1 c1 h2 h3 c2 c3 show ?thesis by (intro conjI)
qed

section \<open>Unparseable responses\<close>

lemma enrich_posts_append_fail:
  "enrich_posts env s pre = (Inr es, s1) \<Longrightarrow> enrich_post env s1 post = (Inl e, s2) \<Longrightarrow>
   enrich_posts env s (pre @ post # rest) = (Inl e, s2)"
  by (induction pre arbitrary: s es) (auto split: prod.splits sum.splits)

lemma extract_metadata_unparseable:
  "parser_parse env content = None \<Longrightarrow> llm_invoke env s (extract_prompt t) = (Inr content, s') \<Longrightarrow>
   extract_metadata env s t =
     (Inl (OutputParserException ''Context is too big, unable to process''), s')"
  by (simp add: extract_metadata_def)

lemma get_unified_tags_unparseable:
  "parser_parse env content = None \<Longrightarrow> collect_tags [] es = Inr ut \<Longrightarrow>
   py_join (py_str '','') (set_iter env ut) = Inr l \<Longrightarrow>
   llm_invoke env s (unify_prompt l) = (Inr content, s') \<Longrightarrow>
   get_unified_tags env s es =
     (Inl (OutputParserException ''Context is too big, unable to process''), s')"
  by (simp add: get_unified_tags_def)

lemma process_posts_enrich_failed:
  "try_encodings env (files w raw) encodings = (out, Posts posts) \<Longrightarrow> py_iter posts = Inr ps \<Longrightarrow>
   enrich_posts env (llm w) ps = (Inl e, s) \<Longrightarrow>
   process_posts env w raw outp = stopped (Raised e) out s"
  by (simp add: process_posts_def)

lemma process_posts_unify_failed:
  "try_encodings env (files w raw) encodings = (out, Posts posts) \<Longrightarrow> py_iter posts = Inr ps \<Longrightarrow>
   enrich_posts env (llm w) ps = (Inr es, s) \<Longrightarrow> get_unified_tags env s es = (Inl e, s') \<Longrightarrow>
   process_posts env w raw outp = stopped (Raised e) out s'"
  by (simp add: process_posts_def)

text \<open>
  C1: when the parser cannot read the content of an LLM response as JSON, \<open>extract_metadata\<close>
  and \<open>get_unified_tags\<close> both raise the parse error with the message
  "Context is too big, unable to process", and a batch run in which this happens, at a post
  or at the unification, ends with that error: nothing is written, and the LLM client is
  left in the state after the failing call (no retry, no later post).
\<close>

theorem unparseable_response_aborts:
  assumes "parser_parse env content = None"
  shows
    "(llm_invoke env s1 (extract_prompt t) = (Inr content, s1') \<longrightarrow>
        extract_metadata env s1 t =
          (Inl (OutputParserException ''Context is too big, unable to process''), s1'))
   \<and> (collect_tags [] es2 = Inr ut2 \<and> py_join (py_str '','') (set_iter env ut2) = Inr l2 \<and>
        llm_invoke env s2 (unify_prompt l2) = (Inr content, s2') \<longrightarrow>
        get_unified_tags env s2 es2 =
          (Inl (OutputParserException ''Context is too big, unable to process''), s2'))
   \<and> (try_encodings env (files w raw) encodings = (out, Posts posts) \<and>
        py_iter posts = Inr (pre @ JObject d # rest) \<and>
        enrich_posts env (llm w) pre = (Inr es3, s3) \<and>
        map_of d (py_str ''text'') = Some (JString txt) \<and>
        llm_invoke env s3 (extract_prompt (remove_emoji txt)) = (Inr content, s3') \<longrightarrow>
        process_posts env w raw outp =
          \<lparr>outcome = Raised (OutputParserException ''Context is too big, unable to process''),
           stdout = out, llm_after = s3', written = None\<rparr>)
   \<and> (try_encodings env (files w raw) encodings = (out, Posts posts) \<and>
        py_iter posts = Inr ps \<and>
        enrich_posts env (llm w) ps = (Inr es4, s4) \<and>
        collect_tags [] es4 = Inr ut4 \<and> py_join (py_str '','') (set_iter env ut4) = Inr l4 \<and>
        llm_invoke env s4 (unify_prompt l4) = (Inr content, s4') \<longrightarrow>
        process_posts env w raw outp =
          \<lparr>outcome = Raised (OutputParserException ''Context is too big, unable to process''),
           stdout = out, llm_after = s4', written = None\<rparr>)"
proof (intro conjI impI)
  assume "llm_invoke env s1 (extract_prompt t) = (Inr content, s1')"
  with assms show "extract_metadata env s1 t =
      (Inl (OutputParserException ''Context is too big, unable to process''), s1')"
    by (rule extract_metadata_unparseable)
next
  assume "collect_tags [] es2 = Inr ut2 \<and> py_join (py_str '','') (set_iter env ut2) = Inr l2 \<and>
        llm_invoke env s2 (unify_prompt l2) = (Inr content, s2')"
  with assms show "get_unified_tags env s2 es2 =
      (Inl (OutputParserException ''Context is too big, unable to process''), s2')"
    by (simp add: get_unified_tags_unparseable)
next
  assume a: "try_encodings env (files w raw) encodings = (out, Posts posts) \<and>
        py_iter posts = Inr (pre @ JObject d # rest) \<and>
        enrich_posts env (llm w) pre = (Inr es3, s3) \<and>
        map_of d (py_str ''text'') = Some (JString txt) \<and>
        llm_invoke env s3 (extract_prompt (remove_emoji txt)) = (Inr content, s3')"
  then have "extract_metadata env s3 (remove_emoji txt) =
      (Inl (OutputParserException ''Context is too big, unable to process''), s3')"
    using assms by (simp add: extract_metadata_unparseable)
  with a have "enrich_post env s3 (JObject d) =
      (Inl (OutputParserException ''Context is too big, unable to process''), s3')"
    by (simp add: enrich_post_def)
  with a have "enrich_posts env (llm w) (pre @ JObject d # rest) =
      (Inl (OutputParserException ''Context is too big, unable to process''), s3')"
    by (simp add: enrich_posts_append_fail)
  with a show "process_posts env w raw outp =
          \<lparr>outcome = Raised (OutputParserException ''Context is too big, unable to process''),
           stdout = out, llm_after = s3', written = None\<rparr>"
    by (simp add: process_posts_enrich_failed stopped_def)
next
  assume a: "try_encodings env (files w raw) encodings = (out, Posts posts) \<and>
        py_iter posts = Inr ps \<and>
        enrich_posts env (llm w) ps = (Inr es4, s4) \<and>
        collect_tags [] es4 = Inr ut4 \<and> py_join (py_str '','') (set_iter env ut4) = Inr l4 \<and>
        llm_invoke env s4 (unify_prompt l4) = (Inr content, s4')"
  then have "get_unified_tags env s4 es4 =
      (Inl (OutputParserException ''Context is too big, unable to process''), s4')"
    using assms by (simp add: get_unified_tags_unparseable)
  with a show "process_posts env w raw outp =
          \<lparr>outcome = Raised (OutputParserException ''Context is too big, unable to process''),
           stdout = out, llm_after = s4', written = None\<rparr>"
    by (simp add: process_posts_unify_failed stopped_def)
qed

theorem unparseable_response_aborts_witness:
  \<open>table_parse (py_str ''I cannot help with that'') = None
   \<and> extract_metadata example_env [py_str ''I cannot help with that''] (py_str ''hi'') =
       (Inl (OutputParserException ''Context is too big, unable to process''), [])
   \<and> get_unified_tags example_env [py_str ''I cannot help with that'']
        [JObject [(py_str ''tags'', JArray [JString (py_str ''Jobseekers'')])]] =
       (Inl (OutputParserException ''Context is too big, unable to process''), [])
   \<and> process_posts example_env
        (one_file ''in'' (ascii ''[{"text": "hi"}]'') [py_str ''I cannot help with that''])
        ''in'' ''out'' =
       \<lparr>outcome = Raised (OutputParserException ''Context is too big, unable to process''),
        stdout = [], llm_after = [], written = None\<rparr>
   \<and> process_posts example_env
        (one_file ''in'' (ascii ''[{"text": "hi"}]'')
           [py_str ''{"tags": []}'', py_str ''I cannot help with that''])
        ''in'' ''out'' =
       \<lparr>outcome = Raised (OutputParserException ''Context is too big, unable to process''),
        stdout = [], llm_after = [], written = None\<rparr>\<close>
proof -
  let ?c = "py_str ''I cannot help with that''"
  let ?hi = \<open>JObject [(py_str ''text'', JString (py_str ''hi''))]\<close>
  let ?w3 = \<open>one_file ''in'' (ascii ''[{"text": "hi"}]'') [?c]\<close>
  let ?w4 = \<open>one_file ''in'' (ascii ''[{"text": "hi"}]'') [py_str ''{"tags": []}'', ?c]\<close>
  have p: "parser_parse example_env ?c = None"
    by (simp add: example_defs)
  have h1: "llm_invoke example_env [?c] (extract_prompt (py_str ''hi'')) = (Inr ?c, [])"
    by (simp add: example_env_def)
  have h2: "collect_tags [] [JObject [(py_str ''tags'', JArray [JString (py_str ''Jobseekers'')])]]
              = Inr [JString (py_str ''Jobseekers'')]
          \<and> py_join (py_str '','') (set_iter example_env [JString (py_str ''Jobseekers'')])
              = Inr (py_str ''Jobseekers'')
          \<and> llm_invoke example_env [?c] (unify_prompt (py_str ''Jobseekers'')) = (Inr ?c, [])"
    by (simp add: example_defs)
  have h3: "try_encodings example_env (files ?w3 ''in'') encodings = ([], Posts (JArray [?hi]))
          \<and> py_iter (JArray [?hi]) = Inr ([] @ ?hi # [])
          \<and> enrich_posts example_env (llm ?w3) [] = (Inr [], [?c])
          \<and> map_of [(py_str ''text'', JString (py_str ''hi''))] (py_str ''text'') =
              Some (JString (py_str ''hi''))
          \<and> llm_invoke example_env [?c] (extract_prompt (remove_emoji (py_str ''hi''))) =
              (Inr ?c, [])"
    by (simp add: example_defs)
  have h4: \<open>try_encodings example_env (files ?w4 ''in'') encodings = ([], Posts (JArray [?hi]))
          \<and> py_iter (JArray [?hi]) = Inr [?hi]
          \<and> enrich_posts example_env (llm ?w4) [?hi] =
              (Inr [JObject [(py_str ''text'', JString (py_str ''hi'')), (py_str ''tags'', JArray [])]],
               [?c])
          \<and> collect_tags []
              [JObject [(py_str ''text'', JString (py_str ''hi'')), (py_str ''tags'', JArray [])]]
              = Inr []
          \<and> py_join (py_str '','') (set_iter example_env []) = Inr []
          \<and> llm_invoke example_env [?c] (unify_prompt []) = (Inr ?c, [])\<close>
    by (simp add: example_defs)
  note t = unparseable_response_aborts [OF p]
  from p have "table_parse ?c = None" by (simp add: example_env_def)
  moreover have "extract_metadata example_env [?c] (py_str ''hi'') =
      (Inl (OutputParserException ''Context is too big, unable to process''), [])"
    using t [THEN conjunct1, THEN mp, OF h1] .
  moreover have "get_unified_tags example_env [?c]
        [JObject [(py_str ''tags'', JArray [JString (py_str ''Jobseekers'')])]] =
      (Inl (OutputParserException ''Context is too big, unable to process''), [])"
    using t [THEN conjunct2, THEN conjunct1, THEN mp, OF h2] .
  moreover have "process_posts example_env ?w3 ''in'' ''out'' =
       \<lparr>outcome = Raised (OutputParserException ''Context is too big, unable to process''),
        stdout = [], llm_after = [], written = None\<rparr>"
    using t [THEN conjunct2, THEN conjunct2, THEN conjunct1, THEN mp, OF h3] .
  moreover have "process_posts example_env ?w4 ''in'' ''out'' =
       \<lparr>outcome = Raised (OutputParserException ''Context is too big, unable to process''),
        stdout = [], llm_after = [], written = None\<rparr>"
    using t [THEN conjunct2, THEN conjunct2, THEN conjunct2, THEN mp, OF h4] .
  ultimately show ?thesis by blast
qed

section \<open>The structure of a batch run\<close>

lemma written_SomeD:
  assumes "written (process_posts env w raw outp) = Some (p, v)"
  shows "\<exists>out posts ps es s tm s' final.
     try_encodings env (files w raw) encodings = (out, Posts posts) \<and> py_iter posts = Inr ps \<and>
     enrich_posts env (llm w) ps = (Inr es, s) \<and> get_unified_tags env s es = (Inr tm, s') \<and>
     rewrite_posts env tm es = Inr final \<and> open_w_error w outp = None \<and>
     p = outp \<and> v = JArray final"
  using assms
  by (auto simp: process_posts_def stopped_def
      split: prod.splits load_result.splits sum.splits option.splits)

lemma process_posts_load_failed:
  "\<forall>posts. snd (try_encodings env (files w raw) encodings) \<noteq> Posts posts \<Longrightarrow>
   written (process_posts env w raw outp) = None"
  by (auto simp: process_posts_def stopped_def split: prod.splits load_result.splits)

lemma enrich_posts_length:
  "enrich_posts env s ps = (Inr es, s') \<Longrightarrow> length es = length ps"
  by (induction ps arbitrary: s es) (auto split: prod.splits sum.splits)

lemma rewrite_posts_length:
  "rewrite_posts env tm es = Inr final \<Longrightarrow> length final = length es"
  by (induction es arbitrary: final) (auto split: sum.splits)

lemma rewrite_posts_nth:
  "rewrite_posts env tm es = Inr final \<Longrightarrow> i < length es \<Longrightarrow>
   rewrite_post env tm (es ! i) = Inr (final ! i)"
proof (induction es arbitrary: final i)
  case Nil
  then show ?case by simp
next
  case (Cons e es)
  then show ?case
    by (cases i) (auto split: sum.splits)
qed

lemma enrich_posts_take:
  "enrich_posts env s ps = (Inr es, s') \<Longrightarrow> i \<le> length ps \<Longrightarrow>
   \<exists>si. enrich_posts env s (take i ps) = (Inr (take i es), si)"
proof (induction ps arbitrary: s es i)
  case Nil
  then show ?case by simp
next
  case (Cons p ps)
  show ?case
  proof (cases i)
    case 0
    then show ?thesis by simp
  next
    case (Suc j)
    from Cons.prems obtain e s1 es' where
      e: "enrich_post env s p = (Inr e, s1)" and
      r: "enrich_posts env s1 ps = (Inr es', s')" and es: "es = e # es'"
      by (auto split: prod.splits sum.splits)
    from Cons.prems Suc have "j \<le> length ps" by simp
    from Cons.IH [OF r this] obtain si where
      "enrich_posts env s1 (take j ps) = (Inr (take j es'), si)" by blast
    with e es Suc show ?thesis by simp
  qed
qed

lemma enrich_posts_nth:
  "enrich_posts env s ps = (Inr es, s') \<Longrightarrow> i < length ps \<Longrightarrow>
   \<exists>si'. enrich_post env (snd (enrich_posts env s (take i ps))) (ps ! i) = (Inr (es ! i), si')"
proof (induction ps arbitrary: s es i)
  case Nil
  then show ?case by simp
next
  case (Cons p ps)
  from Cons.prems obtain e s1 es' where
    e: "enrich_post env s p = (Inr e, s1)" and
    r: "enrich_posts env s1 ps = (Inr es', s')" and es: "es = e # es'"
    by (auto split: prod.splits sum.splits)
  show ?case
  proof (cases i)
    case 0
    with e es show ?thesis by simp
  next
    case (Suc j)
    with Cons.prems have j: "j < length ps" by simp
    from Cons.IH [OF r j] obtain si' where
      n: "enrich_post env (snd (enrich_posts env s1 (take j ps))) (ps ! j) = (Inr (es' ! j), si')"
      by blast
    from enrich_posts_take [OF r, of j] j obtain sj where
      t: "enrich_posts env s1 (take j ps) = (Inr (take j es'), sj)" by auto
    from e t have "snd (enrich_posts env s (take i (p # ps))) = snd (enrich_posts env s1 (take j ps))"
      using Suc by simp
    with n es Suc show ?thesis by simp
  qed
qed

lemma enrich_post_keys:
  "enrich_post env s post = (Inr e, s') \<Longrightarrow>
   \<exists>d d'. post = JObject d \<and> e = JObject d' \<and> fst ` set d \<subseteq> fst ` set d'"
  by (cases post)
     (auto simp: enrich_post_def dict_merge_def keys_fold_update keys_update Let_def
           split: sum.splits prod.splits json.splits option.splits)

lemma rewrite_post_keys:
  assumes "rewrite_post env tm e = Inr f"
  shows "\<exists>d d'. e = JObject d \<and> f = JObject d' \<and> fst ` set d' = fst ` set d \<and>
     (\<exists>ts. map_of d' (py_str ''tags'') = Some (JArray ts))"
proof -
  from assms obtain d tv tags new_tags where
    e: "e = JObject d" and tv: "map_of d (py_str ''tags'') = Some tv" and
    f: "f = JObject (AList.update (py_str ''tags'') (JArray (set_iter env new_tags)) d)"
    by (cases e) (auto simp: rewrite_post_def split: sum.splits option.splits)
  from tv have "py_str ''tags'' \<in> fst ` set d"
    by (metis domI dom_map_of_conv_image_fst)
  then have "fst ` set (AList.update (py_str ''tags'') (JArray (set_iter env new_tags)) d)
               = fst ` set d"
    by (auto simp: keys_update)
  with e f show ?thesis
    by (simp add: update_conv')
qed

lemma collect_tags_getitem:
  "collect_tags acc es = Inr ut \<Longrightarrow> post \<in> set es \<Longrightarrow>
   \<exists>v. py_getitem post (py_str ''tags'') = Inr v"
  by (induction es arbitrary: acc) (auto split: sum.splits)

lemma get_unified_tags_collects:
  "get_unified_tags env s es = (Inr tm, s') \<Longrightarrow> \<exists>ut. collect_tags [] es = Inr ut"
  by (auto simp: get_unified_tags_def split: sum.splits prod.splits option.splits)

lemma missing_tags_fails:
  assumes "post \<in> set es" and "py_getitem post (py_str ''tags'') = Inl e"
  shows "\<exists>e' s'. get_unified_tags env s es = (Inl e', s')"
proof (cases "get_unified_tags env s es")
  case (Pair r s')
  show ?thesis
  proof (cases r)
    case (Inl e')
    with Pair show ?thesis by simp
  next
    case (Inr tm)
    with Pair have "get_unified_tags env s es = (Inr tm, s')" by simp
    from get_unified_tags_collects [OF this] obtain ut where "collect_tags [] es = Inr ut"
      by blast
    from collect_tags_getitem [OF this assms(1)] assms(2) show ?thesis by simp
  qed
qed

subsection \<open>The example runs\<close>

lemma run_two_posts:
  \<open>process_posts example_env
     (one_file ''in'' (ascii ''[{"text": "A"}, {"text": "B"}]'')
        [py_str ''{"line_count": 1, "language": "English", "tags": ["Jobseekers"]}'',
         py_str ''{"line_count": 2, "language": "Hinglish", "tags": ["Job Hunting"]}'',
         py_str ''{"Jobseekers": "Job Search", "Job Hunting": "Job Search"}''])
     ''in'' ''out'' =
   \<lparr>outcome = Returned, stdout = [], llm_after = [],
    written = Some (''out'', JArray
      [JObject
         [(py_str ''text'', JString (py_str ''A'')),
          (py_str ''line_count'', JInt 1),
          (py_str ''language'', JString (py_str ''English'')),
          (py_str ''tags'', JArray [JString (py_str ''Job Search'')])],
       JObject
         [(py_str ''text'', JString (py_str ''B'')),
          (py_str ''line_count'', JInt 2),
          (py_str ''language'', JString (py_str ''Hinglish'')),
          (py_str ''tags'', JArray [JString (py_str ''Job Search'')])]])\<rparr>\<close>
  by (simp add: example_defs)

lemma load_two_posts:
  \<open>try_encodings example_env
     (files (one_file ''in'' (ascii ''[{"text": "A"}, {"text": "B"}]'') rs) ''in'') encodings =
   ([], Posts (JArray [JObject [(py_str ''text'', JString (py_str ''A''))],
                       JObject [(py_str ''text'', JString (py_str ''B''))]]))\<close>
  by (simp add: example_defs)

lemma run_two_fields_missing:
  \<open>process_posts example_env
     (one_file ''in'' (ascii ''[{"text": "hi"}]'') [py_str ''{"tags": []}'', py_str ''{}''])
     ''in'' ''out'' =
   \<lparr>outcome = Returned, stdout = [], llm_after = [],
    written = Some (''out'', JArray [JObject
      [(py_str ''text'', JString (py_str ''hi'')), (py_str ''tags'', JArray [])]])\<rparr>\<close>
  by (simp add: example_defs)

section \<open>All or nothing\<close>

text \<open>
  C2: a batch run writes its output file only at the very end. When the loader does not
  deliver the posts (the file cannot be read, decoded or parsed as JSON), when the
  enrichment of some post fails, or when the tag unification fails, no output file is
  written; and when an output file is written, the posts were loaded, every one of them
  was enriched, the tags were unified and every enriched post was rewritten, and what is
  written is the list of the rewritten posts, one for each input post.
\<close>

theorem process_posts_all_or_nothing:
  "((\<forall>posts. snd (try_encodings env (files w raw) encodings) \<noteq> Posts posts) \<longrightarrow>
       written (process_posts env w raw outp) = None)
   \<and> (try_encodings env (files w raw) encodings = (out, Posts posts) \<and>
        py_iter posts = Inr ps \<and> enrich_posts env (llm w) ps = (Inl e, s) \<longrightarrow>
        written (process_posts env w raw outp) = None)
   \<and> (try_encodings env (files w raw) encodings = (out, Posts posts) \<and>
        py_iter posts = Inr ps \<and> enrich_posts env (llm w) ps = (Inr es, s) \<and>
        get_unified_tags env s es = (Inl e, s') \<longrightarrow>
        written (process_posts env w raw outp) = None)
   \<and> (written (process_posts env w raw outp) = Some (p, v) \<longrightarrow>
        (\<exists>out posts ps es s tm s' final.
           try_encodings env (files w raw) encodings = (out, Posts posts) \<and>
           py_iter posts = Inr ps \<and>
           enrich_posts env (llm w) ps = (Inr es, s) \<and> length es = length ps \<and>
           get_unified_tags env s es = (Inr tm, s') \<and>
           rewrite_posts env tm es = Inr final \<and> length final = length ps \<and>
           p = outp \<and> v = JArray final))"
proof (intro conjI impI)
  assume "\<forall>posts. snd (try_encodings env (files w raw) encodings) \<noteq> Posts posts"
  then show "written (process_posts env w raw outp) = None"
    by (rule process_posts_load_failed)
next
  assume "try_encodings env (files w raw) encodings = (out, Posts posts) \<and>
        py_iter posts = Inr ps \<and> enrich_posts env (llm w) ps = (Inl e, s)"
  then show "written (process_posts env w raw outp) = None"
    by (simp add: process_posts_enrich_failed stopped_def)
next
  assume "try_encodings env (files w raw) encodings = (out, Posts posts) \<and>
        py_iter posts = Inr ps \<and> enrich_posts env (llm w) ps = (Inr es, s) \<and>
        get_unified_tags env s es = (Inl e, s')"
  then show "written (process_posts env w raw outp) = None"
    by (simp add: process_posts_unify_failed stopped_def)
next
  assume "written (process_posts env w raw outp) = Some (p, v)"
  from written_SomeD [OF this] obtain out posts ps es s tm s' final where
    a: "try_encodings env (files w raw) encodings = (out, Posts posts)" "py_iter posts = Inr ps"
       "enrich_posts env (llm w) ps = (Inr es, s)" "get_unified_tags env s es = (Inr tm, s')"
       "rewrite_posts env tm es = Inr final" "p = outp" "v = JArray final"
    by blast
  from a(3) have l1: "length es = length ps" by (rule enrich_posts_length)
  from a(5) have "length final = length es" by (rule rewrite_posts_length)
  with l1 a show "\<exists>out posts ps es s tm s' final.
           try_encodings env (files w raw) encodings = (out, Posts posts) \<and>
           py_iter posts = Inr ps \<and>
           enrich_posts env (llm w) ps = (Inr es, s) \<and> length es = length ps \<and>
           get_unified_tags env s es = (Inr tm, s') \<and>
           rewrite_posts env tm es = Inr final \<and> length final = length ps \<and>
           p = outp \<and> v = JArray final"
    by auto
qed

theorem process_posts_all_or_nothing_witness:
  \<open>written (process_posts example_env (one_file ''in'' [0xFF, 0xFE, 0x5B, 0, 0x5D, 0] [])
      ''in'' ''out'') = None
   \<and> written (process_posts example_env
        (one_file ''in'' (ascii ''[{"text": "hi"}]'') [py_str ''I cannot help with that''])
        ''in'' ''out'') = None
   \<and> written (process_posts example_env
        (one_file ''in'' (ascii ''[{"text": "hi"}]'') [py_str ''{}'']) ''in'' ''out'') = None
   \<and> written (process_posts example_env
        (one_file ''in'' (ascii ''[{"text": "hi"}]'') [py_str ''{"tags": []}'', py_str ''{}''])
        ''in'' ''out'') =
       Some (''out'', JArray [JObject
         [(py_str ''text'', JString (py_str ''hi'')), (py_str ''tags'', JArray [])]])
   \<and> (\<exists>out posts ps es s tm s' final.
        try_encodings example_env
          (files (one_file ''in'' (ascii ''[{"text": "hi"}]'')
             [py_str ''{"tags": []}'', py_str ''{}'']) ''in'') encodings = (out, Posts posts) \<and>
        py_iter posts = Inr ps \<and>
        enrich_posts example_env
          (llm (one_file ''in'' (ascii ''[{"text": "hi"}]'')
             [py_str ''{"tags": []}'', py_str ''{}''])) ps = (Inr es, s) \<and>
        length es = length ps \<and>
        get_unified_tags example_env s es = (Inr tm, s') \<and>
        rewrite_posts example_env tm es = Inr final \<and> length final = length ps \<and>
        ''out'' = ''out'' \<and>
        JArray [JObject [(py_str ''text'', JString (py_str ''hi'')), (py_str ''tags'', JArray [])]]
          = JArray final)\<close>
proof -
  let ?hi = \<open>JObject [(py_str ''text'', JString (py_str ''hi''))]\<close>
  let ?w1 = \<open>one_file ''in'' [0xFF, 0xFE, 0x5B, 0, 0x5D, 0] ([] :: str list)\<close>
  let ?w2 = \<open>one_file ''in'' (ascii ''[{"text": "hi"}]'') [py_str ''I cannot help with that'']\<close>
  let ?w3 = \<open>one_file ''in'' (ascii ''[{"text": "hi"}]'') [py_str ''{}'']\<close>
  let ?w4 = \<open>one_file ''in'' (ascii ''[{"text": "hi"}]'') [py_str ''{"tags": []}'', py_str ''{}'']\<close>
  have h1: "\<forall>posts. snd (try_encodings example_env (files ?w1 ''in'') encodings) \<noteq> Posts posts"
    by (simp add: example_defs)
  have h2: "try_encodings example_env (files ?w2 ''in'') encodings = ([], Posts (JArray [?hi]))
      \<and> py_iter (JArray [?hi]) = Inr [?hi]
      \<and> enrich_posts example_env (llm ?w2) [?hi] =
          (Inl (OutputParserException ''Context is too big, unable to process''), [])"
    by (simp add: example_defs)
  have h3: "try_encodings example_env (files ?w3 ''in'') encodings = ([], Posts (JArray [?hi]))
      \<and> py_iter (JArray [?hi]) = Inr [?hi]
      \<and> enrich_posts example_env (llm ?w3) [?hi] = (Inr [?hi], [])
      \<and> get_unified_tags example_env [] [?hi] = (Inl (KeyError (py_str ''tags'')), [])"
    by (simp add: example_defs)
  have h4: \<open>written (process_posts example_env ?w4 ''in'' ''out'') =
       Some (''out'', JArray [JObject
         [(py_str ''text'', JString (py_str ''hi'')), (py_str ''tags'', JArray [])]])\<close>
    by (simp add: run_two_fields_missing)
  note t = process_posts_all_or_nothing
  have "written (process_posts example_env ?w1 ''in'' ''out'') = None"
    using t [THEN conjunct1, THEN mp, OF h1] .
  moreover have "written (process_posts example_env ?w2 ''in'' ''out'') = None"
    using t [THEN conjunct2, THEN conjunct1, THEN mp, OF h2] .
  moreover have "written (process_posts example_env ?w3 ''in'' ''out'') = None"
    using t [THEN conjunct2, THEN conjunct2, THEN conjunct1, THEN mp, OF h3] .
  moreover note h4
  moreover note t [THEN conjunct2, THEN conjunct2, THEN conjunct2, THEN mp, OF h4]
  ultimately show ?thesis by (intro conjI)
qed

section \<open>The metadata fields of the written posts\<close>

text \<open>
  C3, as the claim states it, fails: when the extractor's response has no \<open>line_count\<close> and
  no \<open>language\<close>, the run goes through and writes a post without these two fields.
\<close>

theorem written_post_lacks_fields_counterexample:
  \<open>process_posts example_env
     (one_file ''in'' (ascii ''[{"text": "hi"}]'') [py_str ''{"tags": []}'', py_str ''{}''])
     ''in'' ''out'' =
   \<lparr>outcome = Returned, stdout = [], llm_after = [],
    written = Some (''out'', JArray [JObject
      [(py_str ''text'', JString (py_str ''hi'')), (py_str ''tags'', JArray [])]])\<rparr>
   \<and> py_getitem (JObject [(py_str ''text'', JString (py_str ''hi'')), (py_str ''tags'', JArray [])])
        (py_str ''line_count'') = Inl (KeyError (py_str ''line_count''))
   \<and> py_getitem (JObject [(py_str ''text'', JString (py_str ''hi'')), (py_str ''tags'', JArray [])])
        (py_str ''language'') = Inl (KeyError (py_str ''language''))\<close>
  by (simp add: example_defs)

text \<open>
  C3, amended: in every run that reaches the output-writing step, every post of the written
  batch has the \<open>tags\<close> field, holding a list; a post without \<open>tags\<close> after the extraction
  makes the run raise before anything is written. The fields \<open>line_count\<close> and \<open>language\<close>
  are never looked at.
\<close>

theorem written_posts_have_tags:
  "(written (process_posts env w raw outp) = Some (p, v) \<longrightarrow>
      (\<exists>final. v = JArray final \<and>
         list_all (\<lambda>post. \<exists>d ts. post = JObject d \<and>
                      map_of d (py_str ''tags'') = Some (JArray ts)) final))
   \<and> (try_encodings env (files w raw) encodings = (out, Posts posts) \<and>
        py_iter posts = Inr ps \<and> enrich_posts env (llm w) ps = (Inr es, s) \<and>
        post \<in> set es \<and> py_getitem post (py_str ''tags'') = Inl e \<longrightarrow>
        written (process_posts env w raw outp) = None \<and>
        (\<exists>e'. outcome (process_posts env w raw outp) = Raised e'))"
proof (intro conjI impI)
  assume "written (process_posts env w raw outp) = Some (p, v)"
  from written_SomeD [OF this] obtain es tm final where
    r: "rewrite_posts env tm es = Inr final" and v: "v = JArray final"
    by blast
  have "\<exists>d ts. f = JObject d \<and> map_of d (py_str ''tags'') = Some (JArray ts)"
    if "f \<in> set final" for f
  proof -
    from that obtain i where i: "i < length final" "f = final ! i"
      by (auto simp: in_set_conv_nth)
    from r have "length final = length es" by (rule rewrite_posts_length)
    with i rewrite_posts_nth [OF r, of i] have "rewrite_post env tm (es ! i) = Inr f" by simp
    from rewrite_post_keys [OF this] show ?thesis by blast
  qed
  with v show "\<exists>final. v = JArray final \<and>
         list_all (\<lambda>post. \<exists>d ts. post = JObject d \<and>
                      map_of d (py_str ''tags'') = Some (JArray ts)) final"
    by (simp add: list_all_iff)
next
  assume a: "try_encodings env (files w raw) encodings = (out, Posts posts) \<and>
        py_iter posts = Inr ps \<and> enrich_posts env (llm w) ps = (Inr es, s) \<and>
        post \<in> set es \<and> py_getitem post (py_str ''tags'') = Inl e"
  then have "post \<in> set es" and "py_getitem post (py_str ''tags'') = Inl e"
    by simp_all
  from missing_tags_fails [OF this, of env s]
  obtain e' s' where "get_unified_tags env s es = (Inl e', s')"
    by blast
  with a have "process_posts env w raw outp = stopped (Raised e') out s'"
    by (simp add: process_posts_unify_failed)
  then show "written (process_posts env w raw outp) = None"
    and "\<exists>e'. outcome (process_posts env w raw outp) = Raised e'"
    by (simp_all add: stopped_def)
qed

theorem written_posts_have_tags_witness:
  \<open>written (process_posts example_env
      (one_file ''in'' (ascii ''[{"text": "hi"}]'') [py_str ''{"tags": []}'', py_str ''{}''])
      ''in'' ''out'') =
     Some (''out'', JArray [JObject
       [(py_str ''text'', JString (py_str ''hi'')), (py_str ''tags'', JArray [])]])
   \<and> (\<exists>final. JArray [JObject
          [(py_str ''text'', JString (py_str ''hi'')), (py_str ''tags'', JArray [])]] = JArray final \<and>
         list_all (\<lambda>post. \<exists>d ts. post = JObject d \<and>
                      map_of d (py_str ''tags'') = Some (JArray ts)) final)
   \<and> py_getitem (JObject [(py_str ''text'', JString (py_str ''hi''))]) (py_str ''tags'') =
       Inl (KeyError (py_str ''tags''))
   \<and> written (process_posts example_env
        (one_file ''in'' (ascii ''[{"text": "hi"}]'') [py_str ''{}'']) ''in'' ''out'') = None
   \<and> (\<exists>e'. outcome (process_posts example_env
        (one_file ''in'' (ascii ''[{"text": "hi"}]'') [py_str ''{}'']) ''in'' ''out'') = Raised e')\<close>
proof -
  let ?hi = \<open>JObject [(py_str ''text'', JString (py_str ''hi''))]\<close>
  let ?w3 = \<open>one_file ''in'' (ascii ''[{"text": "hi"}]'') [py_str ''{}'']\<close>
  let ?w4 = \<open>one_file ''in'' (ascii ''[{"text": "hi"}]'') [py_str ''{"tags": []}'', py_str ''{}'']\<close>
  have h1: \<open>written (process_posts example_env ?w4 ''in'' ''out'') =
       Some (''out'', JArray [JObject
         [(py_str ''text'', JString (py_str ''hi'')), (py_str ''tags'', JArray [])]])\<close>
    by (simp add: run_two_fields_missing)
  have h2: "try_encodings example_env (files ?w3 ''in'') encodings = ([], Posts (JArray [?hi]))
      \<and> py_iter (JArray [?hi]) = Inr [?hi]
      \<and> enrich_posts example_env (llm ?w3) [?hi] = (Inr [?hi], [])
      \<and> ?hi \<in> set [?hi]
      \<and> py_getitem ?hi (py_str ''tags'') = Inl (KeyError (py_str ''tags''))"
    by (simp add: example_defs)
  note t = written_posts_have_tags
  note c1 = t [THEN conjunct1, THEN mp, OF h1]
  note c2 = t [THEN conjunct2, THEN mp, OF h2]
  from h2 have "py_getitem ?hi (py_str ''tags'') = Inl (KeyError (py_str ''tags''))"
    by blast
  with h1 c1 c2 show ?thesis by (intro conjI) blast+
qed

section \<open>Order of the output\<close>

text \<open>
  C7: when a run returns after writing its output, the written list has as many elements
  as the loaded batch and is in the same order: its i-th element is the i-th input post
  enriched (in the state the LLM client is in after the posts before it) and then
  rewritten by the tag map, and it has at least the keys of that input post.
\<close>

theorem output_order_preserved:
  assumes "outcome (process_posts env w raw outp) = Returned"
      and "written (process_posts env w raw outp) = Some (p, v)"
  shows "\<exists>out posts ps tm final.
     try_encodings env (files w raw) encodings = (out, Posts posts) \<and> py_iter posts = Inr ps \<and>
     p = outp \<and> v = JArray final \<and> length final = length ps \<and>
     (\<forall>i<length ps. \<exists>e si'.
         enrich_post env (snd (enrich_posts env (llm w) (take i ps))) (ps ! i) = (Inr e, si') \<and>
         rewrite_post env tm e = Inr (final ! i) \<and>
         (\<exists>d d'. ps ! i = JObject d \<and> final ! i = JObject d' \<and> fst ` set d \<subseteq> fst ` set d'))"
proof -
  from written_SomeD [OF assms(2)] obtain out posts ps es s tm s' final where
    a: "try_encodings env (files w raw) encodings = (out, Posts posts)" "py_iter posts = Inr ps"
       "enrich_posts env (llm w) ps = (Inr es, s)" "get_unified_tags env s es = (Inr tm, s')"
       "rewrite_posts env tm es = Inr final" "p = outp" "v = JArray final"
    by blast
  from a(3) have l1: "length es = length ps" by (rule enrich_posts_length)
  from a(5) have l2: "length final = length es" by (rule rewrite_posts_length)
  have "\<exists>e si'.
         enrich_post env (snd (enrich_posts env (llm w) (take i ps))) (ps ! i) = (Inr e, si') \<and>
         rewrite_post env tm e = Inr (final ! i) \<and>
         (\<exists>d d'. ps ! i = JObject d \<and> final ! i = JObject d' \<and> fst ` set d \<subseteq> fst ` set d')"
    if i: "i < length ps" for i
  proof -
    from enrich_posts_nth [OF a(3) i] obtain si' where
      e: "enrich_post env (snd (enrich_posts env (llm w) (take i ps))) (ps ! i) = (Inr (es ! i), si')"
      by blast
    from i l1 have r: "rewrite_post env tm (es ! i) = Inr (final ! i)"
      by (simp add: rewrite_posts_nth [OF a(5)])
    from enrich_post_keys [OF e] obtain d d1 where
      k1: "ps ! i = JObject d" "es ! i = JObject d1" "fst ` set d \<subseteq> fst ` set d1" by blast
    from rewrite_post_keys [OF r] k1 obtain d' where
      k2: "final ! i = JObject d'" "fst ` set d' = fst ` set d1" by auto
    from e r k1 k2 show ?thesis by auto
  qed
  with a l1 l2 show ?thesis by auto
qed

theorem output_order_preserved_witness:
  \<open>outcome (process_posts example_env
      (one_file ''in'' (ascii ''[{"text": "A"}, {"text": "B"}]'')
         [py_str ''{"line_count": 1, "language": "English", "tags": ["Jobseekers"]}'',
          py_str ''{"line_count": 2, "language": "Hinglish", "tags": ["Job Hunting"]}'',
          py_str ''{"Jobseekers": "Job Search", "Job Hunting": "Job Search"}''])
      ''in'' ''out'') = Returned
   \<and> written (process_posts example_env
      (one_file ''in'' (ascii ''[{"text": "A"}, {"text": "B"}]'')
         [py_str ''{"line_count": 1, "language": "English", "tags": ["Jobseekers"]}'',
          py_str ''{"line_count": 2, "language": "Hinglish", "tags": ["Job Hunting"]}'',
          py_str ''{"Jobseekers": "Job Search", "Job Hunting": "Job Search"}''])
      ''in'' ''out'') =
     Some (''out'', JArray
      [JObject
         [(py_str ''text'', JString (py_str ''A'')),
          (py_str ''line_count'', JInt 1),
          (py_str ''language'', JString (py_str ''English'')),
          (py_str ''tags'', JArray [JString (py_str ''Job Search'')])],
       JObject
         [(py_str ''text'', JString (py_str ''B'')),
          (py_str ''line_count'', JInt 2),
          (py_str ''language'', JString (py_str ''Hinglish'')),
          (py_str ''tags'', JArray [JString (py_str ''Job Search'')])]])
   \<and> (\<exists>tm e0 s0 e1 s1.
        enrich_post example_env
          (snd (enrich_posts example_env
            [py_str ''{"line_count": 1, "language": "English", "tags": ["Jobseekers"]}'',
             py_str ''{"line_count": 2, "language": "Hinglish", "tags": ["Job Hunting"]}'',
             py_str ''{"Jobseekers": "Job Search", "Job Hunting": "Job Search"}'']
            []))
          (JObject [(py_str ''text'', JString (py_str ''A''))]) = (Inr e0, s0) \<and>
        rewrite_post example_env tm e0 =
          Inr (JObject
            [(py_str ''text'', JString (py_str ''A'')),
             (py_str ''line_count'', JInt 1),
             (py_str ''language'', JString (py_str ''English'')),
             (py_str ''tags'', JArray [JString (py_str ''Job Search'')])]) \<and>
        enrich_post example_env
          (snd (enrich_posts example_env
            [py_str ''{"line_count": 1, "language": "English", "tags": ["Jobseekers"]}'',
             py_str ''{"line_count": 2, "language": "Hinglish", "tags": ["Job Hunting"]}'',
             py_str ''{"Jobseekers": "Job Search", "Job Hunting": "Job Search"}'']
            [JObject [(py_str ''text'', JString (py_str ''A''))]]))
          (JObject [(py_str ''text'', JString (py_str ''B''))]) = (Inr e1, s1) \<and>
        rewrite_post example_env tm e1 =
          Inr (JObject
            [(py_str ''text'', JString (py_str ''B'')),
             (py_str ''line_count'', JInt 2),
             (py_str ''language'', JString (py_str ''Hinglish'')),
             (py_str ''tags'', JArray [JString (py_str ''Job Search'')])]))\<close>
proof -
  let ?rs = \<open>[py_str ''{"line_count": 1, "language": "English", "tags": ["Jobseekers"]}'',
          py_str ''{"line_count": 2, "language": "Hinglish", "tags": ["Job Hunting"]}'',
          py_str ''{"Jobseekers": "Job Search", "Job Hunting": "Job Search"}'']\<close>
  let ?w = \<open>one_file ''in'' (ascii ''[{"text": "A"}, {"text": "B"}]'') ?rs\<close>
  let ?A = "JObject [(py_str ''text'', JString (py_str ''A''))]"
  let ?B = "JObject [(py_str ''text'', JString (py_str ''B''))]"
  let ?PA = "JObject
         [(py_str ''text'', JString (py_str ''A'')),
          (py_str ''line_count'', JInt 1),
          (py_str ''language'', JString (py_str ''English'')),
          (py_str ''tags'', JArray [JString (py_str ''Job Search'')])]"
  let ?PB = "JObject
         [(py_str ''text'', JString (py_str ''B'')),
          (py_str ''line_count'', JInt 2),
          (py_str ''language'', JString (py_str ''Hinglish'')),
          (py_str ''tags'', JArray [JString (py_str ''Job Search'')])]"
  have h1: "outcome (process_posts example_env ?w ''in'' ''out'') = Returned"
    by (subst run_two_posts) simp
  have h2: "written (process_posts example_env ?w ''in'' ''out'') =
      Some (''out'', JArray [?PA, ?PB])"
    by (subst run_two_posts) simp
  have l: "llm ?w = ?rs"
    by (simp add: one_file_def)
  from output_order_preserved [OF h1 h2] obtain out posts ps tm final where
    c: "try_encodings example_env (files ?w ''in'') encodings = (out, Posts posts)"
       "py_iter posts = Inr ps"
       "JArray [?PA, ?PB] = JArray final"
       "\<forall>i<length ps. \<exists>e si'.
          enrich_post example_env (snd (enrich_posts example_env (llm ?w) (take i ps))) (ps ! i)
            = (Inr e, si') \<and>
          rewrite_post example_env tm e = Inr (final ! i) \<and>
          (\<exists>d d'. ps ! i = JObject d \<and> final ! i = JObject d' \<and> fst ` set d \<subseteq> fst ` set d')"
    by blast
  from c(1) [unfolded load_two_posts] have "posts = JArray [?A, ?B]"
    by simp
  with c(2) have ps: "ps = [?A, ?B]" by simp
  from c(3) have final: "final = [?PA, ?PB]" by simp
  from ps have i0: "0 < length ps" and i1: "1 < length ps" by simp_all
  from c(4) [rule_format, OF i0] obtain e0 s0 where
    q0: "enrich_post example_env (snd (enrich_posts example_env (llm ?w) (take 0 ps))) (ps ! 0)
           = (Inr e0, s0)"
        "rewrite_post example_env tm e0 = Inr (final ! 0)"
    by blast
  from c(4) [rule_format, OF i1] obtain e1 s1 where
    q1: "enrich_post example_env (snd (enrich_posts example_env (llm ?w) (take 1 ps))) (ps ! 1)
           = (Inr e1, s1)"
        "rewrite_post example_env tm e1 = Inr (final ! 1)"
    by blast
  have t0: "take 0 ps = []" and n0: "ps ! 0 = ?A" and f0: "final ! 0 = ?PA"
    and t1: "take 1 ps = [?A]" and n1: "ps ! 1 = ?B" and f1: "final ! 1 = ?PB"
    by (simp_all only: ps final take_0 nth_Cons_0 take_Suc_Cons One_nat_def nth_Cons_Suc)
  from q0 have
    p0: "enrich_post example_env (snd (enrich_posts example_env ?rs [])) ?A = (Inr e0, s0)"
        "rewrite_post example_env tm e0 = Inr ?PA"
    unfolding t0 n0 f0 l by this+
  from q1 have
    p1: "enrich_post example_env (snd (enrich_posts example_env ?rs [?A])) ?B = (Inr e1, s1)"
        "rewrite_post example_env tm e1 = Inr ?PB"
    unfolding t1 n1 f1 l by this+
  from p0 p1 have "\<exists>tm e0 s0 e1 s1.
        enrich_post example_env (snd (enrich_posts example_env ?rs [])) ?A = (Inr e0, s0) \<and>
        rewrite_post example_env tm e0 = Inr ?PA \<and>
        enrich_post example_env (snd (enrich_posts example_env ?rs [?A])) ?B = (Inr e1, s1) \<and>
        rewrite_post example_env tm e1 = Inr ?PB"
    by blast
  with h1 h2 show ?thesis by (intro conjI)
qed

section \<open>The tag rewrite\<close>

lemma float_eq_refl: "float_eq x x"
  by (cases x) auto

lemma float_eq_sym: "float_eq x y \<Longrightarrow> float_eq y x"
  by (cases x; cases y) (auto simp: min.commute)

lemma py_eq_refl: "py_eq x x"
  by (auto simp: py_eq_def float_eq_refl split: option.splits)

lemma py_eq_sym: "py_eq x y \<Longrightarrow> py_eq y x"
  by (auto simp: py_eq_def float_eq_sym split: option.splits)

lemma py_eq_string: "py_eq y (JString s) \<longleftrightarrow> y = JString s"
  by (auto simp: py_eq_def split: option.splits)

lemma set_add_props:
  assumes "set_add acc x = Inr out"
  shows "set acc \<subseteq> set out" and "set out \<subseteq> insert x (set acc)"
    and "\<exists>y\<in>set out. py_eq y x" and "py_distinct acc \<Longrightarrow> py_distinct out"
proof -
  from assms have cases: "(out = acc \<and> (\<exists>y\<in>set acc. py_eq y x)) \<or>
      (out = acc @ [x] \<and> \<not> (\<exists>y\<in>set acc. py_eq y x))"
    by (auto simp: set_add_def list_ex_iff split: if_splits)
  then show "set acc \<subseteq> set out" and "set out \<subseteq> insert x (set acc)" by auto
  from cases show "\<exists>y\<in>set out. py_eq y x" by (auto simp: py_eq_refl)
  assume d: "py_distinct acc"
  from cases show "py_distinct out"
  proof
    assume "out = acc \<and> (\<exists>y\<in>set acc. py_eq y x)"
    with d show ?thesis by simp
  next
    assume a: "out = acc @ [x] \<and> \<not> (\<exists>y\<in>set acc. py_eq y x)"
    then have "x \<notin> set acc" using py_eq_refl by blast
    moreover from a have "\<forall>y\<in>set acc. \<not> py_eq x y" using py_eq_sym by blast
    ultimately show ?thesis using a d by (auto simp: py_distinct_def)
  qed
qed

lemma set_update_props:
  "set_update acc vs = Inr out \<Longrightarrow>
   set acc \<subseteq> set out \<and> set out \<subseteq> set acc \<union> set vs \<and>
   (\<forall>v\<in>set vs. \<exists>y\<in>set out. py_eq y v) \<and> (py_distinct acc \<longrightarrow> py_distinct out)"
proof (induction vs arbitrary: acc)
  case Nil
  then show ?case by simp
next
  case (Cons v vs)
  from Cons.prems obtain acc' where
    a: "set_add acc v = Inr acc'" and u: "set_update acc' vs = Inr out"
    by (auto split: sum.splits)
  note p = set_add_props [OF a]
  note q = Cons.IH [OF u]
  from p(3) obtain y where "y \<in> set acc'" "py_eq y v" by blast
  with q have "\<exists>y\<in>set out. py_eq y v" by blast
  with p q show ?case by auto
qed

lemma set_update_hashable:
  "list_all py_hashable vs \<Longrightarrow> \<exists>out. set_update acc vs = Inr out"
  by (induction vs arbitrary: acc) (auto simp: set_add_def)

lemma new_tags_of_strings:
  "new_tags_of (JObject tm) acc (map JString ts) =
     set_update acc (map (\<lambda>t. case map_of tm t of None \<Rightarrow> JString t | Some v \<Rightarrow> v) ts)"
  by (induction ts arbitrary: acc) (auto split: sum.splits)

text \<open>
  C6: for a post whose tags are the strings \<open>ts\<close> and a tag map \<open>tm\<close> whose values for
  these tags are hashable, the rewrite step succeeds and stores as the post's tag list a list
  \<open>out\<close> that is the set of the values \<open>tm.get(t, t)\<close>: every element of \<open>out\<close> is such a
  value, every such value is equal (in Python's sense) to an element of \<open>out\<close>, every such
  value that is a string is in \<open>out\<close> itself, and no two elements of \<open>out\<close> are equal. In
  particular a tag that the map sends to itself is in the output. The order in which Python
  iterates over a set is only required to list each element once.
\<close>

theorem rewrite_post_tags:
  assumes order: "\<forall>xs. set (set_iter env xs) = set xs \<and> length (set_iter env xs) = length xs"
      and tags: "map_of d (py_str ''tags'') = Some tv" "py_iter tv = Inr (map JString ts)"
      and vs: "vs = map (\<lambda>t. case map_of tm t of None \<Rightarrow> JString t | Some v \<Rightarrow> v) ts"
      and hashable: "list_all py_hashable vs"
  shows "\<exists>out. rewrite_post env (JObject tm) (JObject d) =
             Inr (JObject (AList.update (py_str ''tags'') (JArray out) d))
      \<and> set out \<subseteq> set vs
      \<and> (\<forall>v\<in>set vs. \<exists>y\<in>set out. py_eq y v)
      \<and> (\<forall>s. JString s \<in> set vs \<longrightarrow> JString s \<in> set out)
      \<and> distinct out \<and> (\<forall>x\<in>set out. \<forall>y\<in>set out. py_eq x y \<longrightarrow> x = y)
      \<and> (T \<in> set ts \<and> map_of tm T = Some (JString T) \<longrightarrow> JString T \<in> set out)"
proof -
  from set_update_hashable [OF hashable] obtain new_tags where
    u: "set_update [] vs = Inr new_tags" by blast
  let ?out = "set_iter env new_tags"
  from order have so: "set ?out = set new_tags" and lo: "length ?out = length new_tags"
    by simp_all
  from set_update_props [OF u] have
    p: "set new_tags \<subseteq> set vs" "\<forall>v\<in>set vs. \<exists>y\<in>set new_tags. py_eq y v" "py_distinct new_tags"
    by (auto simp: py_distinct_def)
  from u vs tags have r: "rewrite_post env (JObject tm) (JObject d) =
      Inr (JObject (AList.update (py_str ''tags'') (JArray ?out) d))"
    by (simp add: rewrite_post_def new_tags_of_strings)
  from p(3) have "distinct new_tags" by (simp add: py_distinct_def)
  then have "card (set ?out) = length ?out" using so lo by (simp add: distinct_card)
  then have d: "distinct ?out" by (rule card_distinct)
  have str: "JString s \<in> set ?out" if "JString s \<in> set vs" for s
  proof -
    from p(2) that obtain y where "y \<in> set new_tags" "py_eq y (JString s)" by blast
    then show ?thesis using so by (simp add: py_eq_string)
  qed
  have idt: "JString T \<in> set ?out" if "T \<in> set ts \<and> map_of tm T = Some (JString T)"
  proof -
    from that vs have "JString T \<in> set vs" by force
    then show ?thesis by (rule str)
  qed
  from p(3) so have pd: "\<forall>x\<in>set ?out. \<forall>y\<in>set ?out. py_eq x y \<longrightarrow> x = y"
    by (simp add: py_distinct_def)
  from r p(1,2) so str d pd idt show ?thesis
    by (intro exI [of _ ?out]) auto
qed

theorem rewrite_post_tags_witness:
  \<open>list_all py_hashable
     [JString (py_str ''Job Search''), JString (py_str ''Job Search''),
      JString (py_str ''Motivation'')]
   \<and> (\<exists>out. rewrite_post example_env
          (JObject [(py_str ''Jobseekers'', JString (py_str ''Job Search'')),
                    (py_str ''Job Hunting'', JString (py_str ''Job Search'')),
                    (py_str ''Motivation'', JString (py_str ''Motivation''))])
          (JObject [(py_str ''tags'', JArray [JString (py_str ''Jobseekers''),
                      JString (py_str ''Job Hunting''), JString (py_str ''Motivation'')])]) =
         Inr (JObject (AList.update (py_str ''tags'') (JArray out)
               [(py_str ''tags'', JArray [JString (py_str ''Jobseekers''),
                      JString (py_str ''Job Hunting''), JString (py_str ''Motivation'')])]))
        \<and> set out \<subseteq> {JString (py_str ''Job Search''), JString (py_str ''Motivation'')}
        \<and> JString (py_str ''Job Search'') \<in> set out
        \<and> JString (py_str ''Motivation'') \<in> set out
        \<and> distinct out)\<close>
proof -
  let ?tm = "[(py_str ''Jobseekers'', JString (py_str ''Job Search'')),
              (py_str ''Job Hunting'', JString (py_str ''Job Search'')),
              (py_str ''Motivation'', JString (py_str ''Motivation''))]"
  let ?ts = "[py_str ''Jobseekers'', py_str ''Job Hunting'', py_str ''Motivation'']"
  let ?tv = "JArray [JString (py_str ''Jobseekers''), JString (py_str ''Job Hunting''),
                     JString (py_str ''Motivation'')]"
  let ?vs = "[JString (py_str ''Job Search''), JString (py_str ''Job Search''),
              JString (py_str ''Motivation'')]"
  have h1: "\<forall>xs. set (set_iter example_env xs) = set xs \<and>
                 length (set_iter example_env xs) = length xs"
    by (simp add: example_env_def)
  have h2: "map_of [(py_str ''tags'', ?tv)] (py_str ''tags'') = Some ?tv"
    by simp
  have h3: "py_iter ?tv = Inr (map JString ?ts)"
    by simp
  have h4: "?vs = map (\<lambda>t. case map_of ?tm t of None \<Rightarrow> JString t | Some v \<Rightarrow> v) ?ts"
    by (simp add: py_str_def)
  have h5: "list_all py_hashable ?vs"
    by simp
  have h6: "py_str ''Motivation'' \<in> set ?ts \<and>
            map_of ?tm (py_str ''Motivation'') = Some (JString (py_str ''Motivation''))"
    by (simp add: py_str_def)
  from rewrite_post_tags [OF h1 h2 h3 h4 h5, of "py_str ''Motivation''"] h6
  obtain out where
    o: "rewrite_post example_env (JObject ?tm) (JObject [(py_str ''tags'', ?tv)]) =
          Inr (JObject (AList.update (py_str ''tags'') (JArray out) [(py_str ''tags'', ?tv)]))"
       "set out \<subseteq> set ?vs"
       "\<forall>s. JString s \<in> set ?vs \<longrightarrow> JString s \<in> set out"
       "distinct out" "JString (py_str ''Motivation'') \<in> set out"
    by blast
  from o(3) have "JString (py_str ''Job Search'') \<in> set out" by simp
  with o h5 show ?thesis by (intro conjI exI [of _ out]) auto
qed

section \<open>A file in the second encoding\<close>

text \<open>
  C5 at a file the fallback was written for: the six bytes of \<open>[]\<close> in UTF-16 with its byte
  order mark. The file is malformed as UTF-8 and reads as \<open>[]\<close>, an empty batch, under
  UTF-16, the second encoding of the list. The run does not get there: the two bytes of
  the mark are dropped under UTF-8, the rest is not JSON, and the run prints the JSON
  diagnostic and returns without trying UTF-16.
\<close>

theorem utf16_file_not_retried:
  \<open>list_ex is_malformed (utf8_segments [0xFF, 0xFE, 0x5B, 0, 0x5D, 0])
   \<and> read_text example_env UTF16 [0xFF, 0xFE, 0x5B, 0, 0x5D, 0] = Inr (py_str ''[]'')
   \<and> json_loads example_env (py_str ''[]'') = Inr (JArray [])
   \<and> read_text example_env UTF8 [0xFF, 0xFE, 0x5B, 0, 0x5D, 0] = Inr [0x5B, 0, 0x5D, 0]
   \<and> process_posts example_env (one_file ''in'' [0xFF, 0xFE, 0x5B, 0, 0x5D, 0] [])
        ''in'' ''out'' =
       \<lparr>outcome = Returned, stdout = [''Error: The file could not be decoded as JSON.''],
        llm_after = [], written = None\<rparr>\<close>
  by (simp add: example_defs code_unit_def)

end
